theory Spec2Isabelle
  imports Main "HOL-Library.Char_ord" "HOL-Library.List_Lexorder" "HOL-Library.Multiset"
begin

section \<open>Strings and paths\<close>

text \<open>JavaScript's \<open>s.split(c)\<close> for a one-character separator: the pieces between the
  separators, empty pieces kept; the empty string gives one empty piece.\<close>

fun split_on :: "char \<Rightarrow> string \<Rightarrow> string list" where
  "split_on c [] = [[]]"
| "split_on c (x # xs) =
     (if x = c then [] # split_on c xs
      else (x # hd (split_on c xs)) # tl (split_on c xs))"

text \<open>\<open>p.split('/').filter(Boolean)\<close>: the non-empty pieces.\<close>

definition segments :: "string \<Rightarrow> string list" where
  "segments p = filter (\<lambda>s. s \<noteq> []) (split_on (CHR ''/'') p)"

text \<open>\<open>s.replace(/\/$/, '')\<close>: one trailing slash is removed, if there is one.\<close>

definition strip_trailing_slash :: "string \<Rightarrow> string" where
  "strip_trailing_slash s = (if s \<noteq> [] \<and> last s = CHR ''/'' then butlast s else s)"

text \<open>\<open>s.startsWith(':')\<close>.\<close>

definition startsWith_colon :: "string \<Rightarrow> bool" where
  "startsWith_colon s = (case s of [] \<Rightarrow> False | c # _ \<Rightarrow> c = CHR '':'')"

text \<open>\<open>s.slice(1)\<close>.\<close>

definition slice1 :: "string \<Rightarrow> string" where
  "slice1 s = drop 1 s"

text \<open>\<open>xs.join(sep)\<close>.\<close>

fun join_with :: "string \<Rightarrow> string list \<Rightarrow> string" where
  "join_with sep [] = []"
| "join_with sep [x] = x"
| "join_with sep (x # y # ys) = x @ sep @ join_with sep (y # ys)"

text \<open>A piece of a normalised path: not empty and without a slash.\<close>

definition plain_segment :: "string \<Rightarrow> bool" where
  "plain_segment s = (s \<noteq> [] \<and> CHR ''/'' \<notin> set s)"

text \<open>Node's \<open>path.posix.join\<close> of two arguments (a library function the template calls):
  the non-empty arguments are joined with a slash and the result is normalised: empty and
  \<open>.\<close> segments are dropped, \<open>..\<close> removes the segment before it (and is kept at the
  front of a relative path), a leading and a trailing slash are kept, and the empty result
  is written \<open>.\<close>. \<open>normalizeString\<close> goes through the pieces between the slashes,
  \<open>res\<close> being the segments kept so far.\<close>

fun normalizeString :: "bool \<Rightarrow> string list \<Rightarrow> string list \<Rightarrow> string list" where
  "normalizeString allowAboveRoot res [] = res"
| "normalizeString allowAboveRoot res (s # ss) =
     (if s = [] \<or> s = ''.'' then normalizeString allowAboveRoot res ss
      else if s = ''..'' then
        (if res \<noteq> [] \<and> last res \<noteq> ''..'' then normalizeString allowAboveRoot (butlast res) ss
         else if allowAboveRoot then normalizeString allowAboveRoot (res @ [''..'']) ss
         else normalizeString allowAboveRoot res ss)
      else normalizeString allowAboveRoot (res @ [s]) ss)"

definition posix_normalize :: "string \<Rightarrow> string" where
  "posix_normalize p =
     (if p = [] then ''.''
      else
        let isAbsolute = (hd p = CHR ''/'');
            trailingSeparator = (last p = CHR ''/'');
            res = join_with ''/'' (normalizeString (\<not> isAbsolute) [] (split_on (CHR ''/'') p))
        in if res = [] then (if isAbsolute then ''/'' else if trailingSeparator then ''./'' else ''.'')
           else (if isAbsolute then ''/'' else []) @ res @ (if trailingSeparator then ''/'' else []))"

definition posix_join :: "string \<Rightarrow> string \<Rightarrow> string" where
  "posix_join a b =
     (if a = [] \<and> b = [] then ''.''
      else if a = [] then posix_normalize b
      else if b = [] then posix_normalize a
      else posix_normalize (a @ ''/'' @ b))"

section \<open>Route resolver\<close>

text \<open>A \<open>RouteConfigEntry\<close> as the template reads it: the optional \<open>path\<close>, the
  \<open>file\<close> and the optional \<open>children\<close>.\<close>

datatype RouteConfigEntry =
  RouteConfigEntry (route_path: "string option") (route_file: string)
    (route_children: "RouteConfigEntry list option")

text \<open>\<open>path.posix.join(parentPath, route.path || "").replace(/\/$/, '') || "/"\<close>.\<close>

definition fullPath_of :: "string \<Rightarrow> string option \<Rightarrow> string" where
  "fullPath_of parentPath p =
     (let s = strip_trailing_slash (posix_join parentPath (case p of None \<Rightarrow> [] | Some q \<Rightarrow> q))
      in if s = [] then ''/'' else s)"

text \<open>\<open>x === "/" ? "/" : x.replace(/\/$/, '')\<close>.\<close>

definition normalize_slash :: "string \<Rightarrow> string" where
  "normalize_slash x = (if x = ''/'' then ''/'' else strip_trailing_slash x)"

text \<open>The loop of \<open>matchesDynamicRoute\<close>, from index \<open>i\<close>.\<close>

function match_from :: "nat \<Rightarrow> string list \<Rightarrow> string list \<Rightarrow> bool" where
  "match_from i routeSegments targetSegments =
     (if i < length routeSegments then
        (if startsWith_colon (routeSegments ! i) then match_from (Suc i) routeSegments targetSegments
         else if routeSegments ! i \<noteq> targetSegments ! i then False
         else match_from (Suc i) routeSegments targetSegments)
      else True)"
  by pat_completeness auto
termination
  by (relation "measure (\<lambda>(i, rs, ts). length rs - i)") auto

definition matchesDynamicRoute :: "string \<Rightarrow> string \<Rightarrow> bool" where
  "matchesDynamicRoute routePath targetPath =
     (let routeSegments = segments routePath;
          targetSegments = segments targetPath
      in if length routeSegments \<noteq> length targetSegments then False
         else match_from 0 routeSegments targetSegments)"

text \<open>Assignment \<open>params[name] = value\<close> on an object created as \<open>{}\<close>: the name
  \<open>__proto__\<close> reaches the prototype setter, which ignores a string and stores no entry;
  every other name becomes (or overwrites) an entry.\<close>

definition set_property :: "(string \<rightharpoonup> string) \<Rightarrow> string \<Rightarrow> string \<Rightarrow> (string \<rightharpoonup> string)" where
  "set_property params name v = (if name = ''__proto__'' then params else params(name \<mapsto> v))"

text \<open>One pass of the loop of \<open>extractParams\<close> at index \<open>i\<close>; \<open>pathSegments[i]\<close> is
  undefined past the end, and \<open>pathSegment || ''\<close> is then the empty string.\<close>

definition extract_step :: "string list \<Rightarrow> string list \<Rightarrow> nat \<Rightarrow> (string \<rightharpoonup> string) \<Rightarrow> (string \<rightharpoonup> string)" where
  "extract_step routeSegments pathSegments i params =
     (let routeSegment = routeSegments ! i;
          pathSegment = (if i < length pathSegments then Some (pathSegments ! i) else None)
      in if startsWith_colon routeSegment
         then set_property params (slice1 routeSegment)
                (case pathSegment of None \<Rightarrow> [] | Some s \<Rightarrow> s)
         else params)"

definition extractParams :: "string \<Rightarrow> string \<Rightarrow> (string \<rightharpoonup> string)" where
  "extractParams routePath actualPath =
     (let routeSegments = segments routePath;
          pathSegments = segments actualPath
      in fold (extract_step routeSegments pathSegments) [0..<length routeSegments] Map.empty)"

text \<open>The names of the dynamic segments of a route path, in order, marker stripped.\<close>

definition param_names :: "string \<Rightarrow> string list" where
  "param_names routePath = map slice1 (filter startsWith_colon (segments routePath))"

record RouteInfo =
  file' :: string
  routePath :: string

fun findRouteFile :: "string \<Rightarrow> RouteConfigEntry list \<Rightarrow> string \<Rightarrow> RouteInfo option" where
  "findRouteFile targetPath [] parentPath = None"
| "findRouteFile targetPath (RouteConfigEntry p f cs # rest) parentPath =
     (let fullPath = fullPath_of parentPath p;
          normalizedFullPath = normalize_slash fullPath;
          normalizedTargetPath = normalize_slash targetPath
      in if normalizedFullPath = normalizedTargetPath
            \<or> matchesDynamicRoute normalizedFullPath normalizedTargetPath
         then Some \<lparr>file' = f, routePath = normalizedFullPath\<rparr>
         else (case cs of
                 None \<Rightarrow> findRouteFile targetPath rest parentPath
               | Some children \<Rightarrow>
                   (case findRouteFile targetPath children fullPath of
                      Some result \<Rightarrow> Some result
                    | None \<Rightarrow> findRouteFile targetPath rest parentPath)))"

text \<open>The loop of \<open>extractAllRoutePaths\<close>: the array \<open>paths\<close> before the final sort. The
  recursive call on the children returns its own array sorted.\<close>

fun collectPaths :: "RouteConfigEntry list \<Rightarrow> string \<Rightarrow> string list" where
  "collectPaths [] parentPath = []"
| "collectPaths (RouteConfigEntry p f cs # rest) parentPath =
     (let fullPath = fullPath_of parentPath p
      in fullPath #
         (case cs of None \<Rightarrow> [] | Some children \<Rightarrow> sort (collectPaths children fullPath))
         @ collectPaths rest parentPath)"

definition extractAllRoutePaths :: "RouteConfigEntry list \<Rightarrow> string \<Rightarrow> string list" where
  "extractAllRoutePaths routeConfig parentPath = sort (collectPaths routeConfig parentPath)"

subsection \<open>The traversal, as a list\<close>

text \<open>Every node of the table with its normalised full path, in depth-first pre-order: a
  node, then its descendants, then its later siblings.\<close>

fun preorder :: "RouteConfigEntry list \<Rightarrow> string \<Rightarrow> RouteInfo list" where
  "preorder [] parentPath = []"
| "preorder (RouteConfigEntry p f cs # rest) parentPath =
     \<lparr>file' = f, routePath = normalize_slash (fullPath_of parentPath p)\<rparr> #
     (case cs of None \<Rightarrow> [] | Some children \<Rightarrow> preorder children (fullPath_of parentPath p))
     @ preorder rest parentPath"

text \<open>The nodes of one level only, in declaration order.\<close>

definition level_nodes :: "RouteConfigEntry list \<Rightarrow> string \<Rightarrow> RouteInfo list" where
  "level_nodes routeConfig parentPath =
     map (\<lambda>r. \<lparr>file' = route_file r,
                routePath = normalize_slash (fullPath_of parentPath (route_path r))\<rparr>) routeConfig"

text \<open>The test \<open>findRouteFile\<close> applies to a node.\<close>

definition node_matches :: "string \<Rightarrow> RouteInfo \<Rightarrow> bool" where
  "node_matches targetPath n =
     (routePath n = normalize_slash targetPath
      \<or> matchesDynamicRoute (routePath n) (normalize_slash targetPath))"

section \<open>Handler results and responses\<close>

text \<open>The values a handler can return, as far as \<open>convertToResponse\<close> and
  \<open>JSON.stringify\<close> look at them: numbers are the integers, an object is the list of its
  own properties in enumeration order.\<close>

datatype JsValue =
    JUndefined
  | JNull
  | JBool bool
  | JNumber int
  | JString string
  | JArray "JsValue list"
  | JObject "(string \<times> JsValue) list"

text \<open>A \<open>Response\<close>, described by what its constructor was given: the body and the
  \<open>status\<close>, \<open>statusText\<close> and \<open>headers\<close> of the init object (undefined when the init
  object has no such field). What the platform's constructor does with them is not part of
  the template.\<close>

record Response =
  body :: "string option"
  status :: JsValue
  statusText :: JsValue
  headers :: JsValue

text \<open>What a handler returns: a \<open>Response\<close> instance, or any other value.\<close>

datatype HandlerResult = ResponseObject Response | Value JsValue

text \<open>JavaScript truthiness.\<close>

fun truthy :: "JsValue \<Rightarrow> bool" where
  "truthy JUndefined = False"
| "truthy JNull = False"
| "truthy (JBool b) = b"
| "truthy (JNumber n) = (n \<noteq> 0)"
| "truthy (JString s) = (s \<noteq> [])"
| "truthy (JArray xs) = True"
| "truthy (JObject kvs) = True"

text \<open>\<open>typeof v === 'object'\<close>.\<close>

fun typeof_object :: "JsValue \<Rightarrow> bool" where
  "typeof_object JNull = True"
| "typeof_object (JArray xs) = True"
| "typeof_object (JObject kvs) = True"
| "typeof_object v = False"

text \<open>\<open>name in v\<close>, for an object or an array and a name that is not an array index or a
  built-in property.\<close>

fun has_property :: "string \<Rightarrow> JsValue \<Rightarrow> bool" where
  "has_property name (JObject kvs) = (name \<in> fst ` set kvs)"
| "has_property name v = False"

text \<open>\<open>v.name\<close> on a value that is neither null nor undefined, for a name that is not a
  built-in property: undefined unless the value is an object with that property.\<close>

fun get_property :: "JsValue \<Rightarrow> string \<Rightarrow> JsValue" where
  "get_property (JObject kvs) name = (case map_of kvs name of None \<Rightarrow> JUndefined | Some v \<Rightarrow> v)"
| "get_property v name = JUndefined"

text \<open>\<open>v?.name\<close>.\<close>

definition optional_get :: "JsValue \<Rightarrow> string \<Rightarrow> JsValue" where
  "optional_get v name = (if v = JUndefined \<or> v = JNull then JUndefined else get_property v name)"

subsection \<open>\<open>JSON.stringify\<close>\<close>

definition digit_char :: "nat \<Rightarrow> char" where
  "digit_char d = char_of (48 + d)"

function show_nat :: "nat \<Rightarrow> string" where
  "show_nat n = (if n < 10 then [digit_char n] else show_nat (n div 10) @ [digit_char (n mod 10)])"
  by pat_completeness auto
termination
  by (relation "measure id") auto

definition show_int :: "int \<Rightarrow> string" where
  "show_int i = (if i < 0 then ''-'' @ show_nat (nat (- i)) else show_nat (nat i))"

definition hex_char :: "nat \<Rightarrow> char" where
  "hex_char d = (if d < 10 then char_of (48 + d) else char_of (87 + d))"

text \<open>The quote and the backslash are escaped with a backslash, the control characters
  below 32 by their short form or as \<open>\u00XX\<close>.\<close>

definition json_escape :: "char \<Rightarrow> string" where
  "json_escape c =
     (let n = (of_char c :: nat) in
      if n = 34 then [CHR 0x5C, CHR 0x22]
      else if n = 92 then [CHR 0x5C, CHR 0x5C]
      else if n = 8 then [CHR 0x5C, CHR ''b'']
      else if n = 9 then [CHR 0x5C, CHR ''t'']
      else if n = 10 then [CHR 0x5C, CHR ''n'']
      else if n = 12 then [CHR 0x5C, CHR ''f'']
      else if n = 13 then [CHR 0x5C, CHR ''r'']
      else if n < 32 then [CHR 0x5C, CHR ''u'', CHR ''0'', CHR ''0'', hex_char (n div 16), hex_char (n mod 16)]
      else [c])"

definition json_quote :: "string \<Rightarrow> string" where
  "json_quote s = [CHR 0x22] @ concat (map json_escape s) @ [CHR 0x22]"

text \<open>The text of a value inside a document: an undefined array element is written
  \<open>null\<close>, an object property whose value is undefined is left out.\<close>

fun json_text :: "JsValue \<Rightarrow> string" where
  "json_text JUndefined = ''null''"
| "json_text JNull = ''null''"
| "json_text (JBool b) = (if b then ''true'' else ''false'')"
| "json_text (JNumber n) = show_int n"
| "json_text (JString s) = json_quote s"
| "json_text (JArray xs) = ''['' @ join_with '','' (map json_text xs) @ '']''"
| "json_text (JObject kvs) =
     ''{'' @ join_with '',''
        (map (\<lambda>kv. json_quote (fst kv) @ '':'' @ json_text (snd kv))
           (filter (\<lambda>kv. snd kv \<noteq> JUndefined) kvs)) @ ''}''"

text \<open>\<open>JSON.stringify(v)\<close>: undefined for the value undefined, a string otherwise.\<close>

definition JSON_stringify :: "JsValue \<Rightarrow> string option" where
  "JSON_stringify v = (if v = JUndefined then None else Some (json_text v))"

subsection \<open>\<open>convertToResponse\<close>\<close>

fun convertToResponse :: "HandlerResult \<Rightarrow> Response" where
  "convertToResponse (ResponseObject r) = r"
| "convertToResponse (Value data) =
     (if truthy data \<and> typeof_object data \<and> has_property ''init'' data then
        (let responseData_data = get_property data ''data'';
             responseData_init = get_property data ''init'';
             body = (if responseData_data \<noteq> JUndefined then JSON_stringify responseData_data else None)
         in \<lparr>body = body,
             status = (let s = optional_get responseData_init ''status''
                       in if truthy s then s else JNumber 200),
             statusText = optional_get responseData_init ''statusText'',
             headers = optional_get responseData_init ''headers''\<rparr>)
      else
        (let body = (if data \<noteq> JUndefined then JSON_stringify data else None)
         in \<lparr>body = body,
             status = JNumber 200,
             statusText = JUndefined,
             headers = JObject [(''Content-Type'', JString ''application/json'')]\<rparr>))"

section \<open>Dispatcher\<close>

text \<open>\<open>WorkerdRequestInit\<close>: the optional \<open>method\<close> and \<open>params\<close>, and the other
  \<open>RequestInit\<close> fields (headers, body, ...), which the template only passes on.\<close>

record 'o WorkerdRequestInit =
  init_method :: "string option"
  init_params :: "(string \<rightharpoonup> string) option"
  init_other :: 'o

text \<open>A \<open>Request\<close> given as input, as far as the template reads it:
  \<open>new URL(input.url).pathname\<close> and \<open>input.method\<close>.\<close>

record InboundRequest =
  url_pathname :: string
  request_method :: string

text \<open>The object \<open>{ method, ...requestInit }\<close> given to the \<open>Request\<close> constructor.\<close>

record 'o RequestOptions =
  options_method :: string
  options_other :: 'o

text \<open>The request built for the handler, described by what its constructor was given: a
  URL string or the input request, and the options.\<close>

datatype 'o Request =
    Request_of_url string "'o RequestOptions"
  | Request_of_request InboundRequest "'o RequestOptions"

record 'env TestContext =
  cloudflare_env :: 'env
  context_params :: "string \<rightharpoonup> string"

record ('o, 'env) HandlerArgs =
  args_request :: "'o Request"
  args_params :: "string \<rightharpoonup> string"
  args_context :: "'env TestContext"

text \<open>What \<open>workerdFetch\<close> throws: an \<open>Error\<close> with a message, the \<open>TypeError\<close> of
  calling a value that is not a function, or whatever the handler threw.\<close>

datatype 'x Failure = Error string | TypeError_not_a_function | Thrown 'x

text \<open>An export of a route module: a function, a falsy value, or another value.\<close>

datatype ('o, 'env, 'x) Export =
    Function "('o, 'env) HandlerArgs \<Rightarrow> 'x + HandlerResult"
  | FalsyValue
  | OtherValue

text \<open>What the plugin puts into the template (\<open>__ROUTES_CONFIG__\<close>, \<open>__BASE_URL__\<close>,
  \<open>__ENV_IMPORT__\<close>) and the module loader behind \<open>import(routePath)\<close>: the exports of the
  module in the order of \<open>Object.keys\<close>, or the text of the error it rejects with.\<close>

record ('o, 'env, 'x) Template =
  ROUTES_CONFIG :: "RouteConfigEntry list"
  BASE_URL :: string
  ENV_IMPORT :: 'env
  import_module :: "string \<Rightarrow> string + (string \<times> ('o, 'env, 'x) Export) list"

datatype Input = StringInput string | RequestInput InboundRequest

definition createTestContext :: "'env \<Rightarrow> (string \<rightharpoonup> string) option \<Rightarrow> 'env TestContext" where
  "createTestContext env ps =
     \<lparr>cloudflare_env = env,
      context_params = (case ps of None \<Rightarrow> Map.empty | Some m \<Rightarrow> m)\<rparr>"

text \<open>\<open>url\<close> and \<open>method\<close> of the input; \<open>a || b\<close> takes \<open>b\<close> when \<open>a\<close> is undefined or
  the empty string.\<close>

definition url_of :: "Input \<Rightarrow> string" where
  "url_of input = (case input of StringInput s \<Rightarrow> s | RequestInput r \<Rightarrow> url_pathname r)"

definition or_GET :: "string option \<Rightarrow> string" where
  "or_GET m = (case m of None \<Rightarrow> ''GET'' | Some s \<Rightarrow> if s = [] then ''GET'' else s)"

definition method_of :: "Input \<Rightarrow> 'o WorkerdRequestInit \<Rightarrow> string" where
  "method_of input init =
     (case input of
        StringInput s \<Rightarrow> or_GET (init_method init)
      | RequestInput r \<Rightarrow> if request_method r \<noteq> [] then request_method r else or_GET (init_method init))"

text \<open>\<open>url.split('?')[0] || '/'\<close>.\<close>

definition targetPath_of :: "string \<Rightarrow> string" where
  "targetPath_of url = (let p = hd (split_on (CHR ''?'') url) in if p = [] then ''/'' else p)"

text \<open>\<open>{ method, ...requestInit }\<close>: \<open>requestInit\<close> is \<open>init\<close> without \<open>params\<close>, so a
  \<open>method\<close> of \<open>init\<close> is spread over the resolved one.\<close>

definition request_options :: "string \<Rightarrow> 'o WorkerdRequestInit \<Rightarrow> 'o RequestOptions" where
  "request_options method init =
     \<lparr>options_method = (case init_method init of None \<Rightarrow> method | Some m \<Rightarrow> m),
      options_other = init_other init\<rparr>"

definition create_request :: "string \<Rightarrow> Input \<Rightarrow> string \<Rightarrow> 'o WorkerdRequestInit \<Rightarrow> 'o Request" where
  "create_request base input method init =
     (case input of
        StringInput url \<Rightarrow> Request_of_url (base @ url) (request_options method init)
      | RequestInput r \<Rightarrow> Request_of_request r (request_options method init))"

text \<open>\<open>!handler\<close>.\<close>

definition handler_missing :: "('o, 'env, 'x) Export option \<Rightarrow> bool" where
  "handler_missing h = (case h of None \<Rightarrow> True | Some FalsyValue \<Rightarrow> True | Some _ \<Rightarrow> False)"

text \<open>\<open>await handler(args)\<close>.\<close>

definition call_handler ::
  "('o, 'env, 'x) Export option \<Rightarrow> ('o, 'env) HandlerArgs \<Rightarrow> 'x Failure + HandlerResult" where
  "call_handler h args =
     (case h of
        Some (Function f) \<Rightarrow> (case f args of Inl e \<Rightarrow> Inl (Thrown e) | Inr r \<Rightarrow> Inr r)
      | _ \<Rightarrow> Inl TypeError_not_a_function)"

text \<open>The last part of the exported function, from the test \<open>if (!handler)\<close> to the
  end, as a function of the local variables it reads.\<close>

definition invoke_handler ::
  "('o, 'env, 'x) Template \<Rightarrow> Input \<Rightarrow> 'o WorkerdRequestInit \<Rightarrow> string \<Rightarrow> string
     \<Rightarrow> (string \<rightharpoonup> string) \<Rightarrow> RouteInfo \<Rightarrow> (string \<times> ('o, 'env, 'x) Export) list \<Rightarrow> bool
     \<Rightarrow> ('o, 'env, 'x) Export option \<Rightarrow> 'x Failure + Response" where
  "invoke_handler t input init method targetPath additionalParams routeInfo module isGetMethod handler =
     (if handler_missing handler then
        (let availableExports = join_with '', '' (map fst module)
         in Inl (Error (''No '' @ (if isGetMethod then ''loader'' else ''action'')
                        @ '' found for route: '' @ targetPath
                        @ '' (method: '' @ method
                        @ ''). Available exports: '' @ availableExports)))
      else
        (let request = create_request (BASE_URL t) input method init;
             routeParams = extractParams (routePath routeInfo) targetPath;
             allParams = routeParams ++ additionalParams;
             context = createTestContext (ENV_IMPORT t) (Some allParams)
         in case call_handler handler
                   \<lparr>args_request = request, args_params = allParams, args_context = context\<rparr> of
              Inl e \<Rightarrow> Inl e
            | Inr result \<Rightarrow> Inr (convertToResponse result)))"

text \<open>The function the template exports under \<open>__FETCH_FUNCTION_NAME__\<close>
  (\<open>workerdFetch\<close> by default). A rejected promise is the left summand of the result;
  \<open>path.join\<close> is the POSIX join.\<close>

definition workerdFetch ::
  "('o, 'env, 'x) Template \<Rightarrow> Input \<Rightarrow> 'o WorkerdRequestInit \<Rightarrow> 'x Failure + Response" where
  "workerdFetch t input init =
     (let url = url_of input;
          method = method_of input init;
          targetPath = targetPath_of url;
          additionalParams = (case init_params init of None \<Rightarrow> Map.empty | Some ps \<Rightarrow> ps)
      in case findRouteFile targetPath (ROUTES_CONFIG t) [] of
           None \<Rightarrow>
             (let availableRoutes = extractAllRoutePaths (ROUTES_CONFIG t) []
              in Inl (Error (''Could not find route for path: '' @ targetPath
                             @ ''. Available routes: '' @ join_with '', '' availableRoutes)))
         | Some routeInfo \<Rightarrow>
             (let modulePath = posix_join ''~'' (file' routeInfo)
              in case import_module t modulePath of
                   Inl error \<Rightarrow>
                     Inl (Error (''Failed to import route module: '' @ modulePath
                                 @ ''. Error: '' @ error))
                 | Inr module \<Rightarrow>
                     (let isGetMethod = (method = ''GET'' \<or> method = ''HEAD'');
                          handler = (if isGetMethod then map_of module ''loader''
                                     else map_of module ''action'')
                      in invoke_handler t input init method targetPath additionalParams
                           routeInfo module isGetMethod handler)))"

section \<open>The spec's wording, for comparison\<close>



text \<open>The capability names present on a module, without its other exports.\<close>

definition capability_names :: "(string \<times> ('o, 'env, 'x) Export) list \<Rightarrow> string list" where
  "capability_names module = filter (\<lambda>k. k = ''loader'' \<or> k = ''action'') (map fst module)"

section \<open>An example application\<close>

text \<open>Two routes: \<open>api/users/:id\<close>, whose module exports a loader that answers with the
  \<open>id\<close> parameter it was given (from the arguments and from the context), and
  \<open>api/login\<close>, whose module exports an action and a default export.\<close>

definition user_loader :: "(unit, unit) HandlerArgs \<Rightarrow> unit + HandlerResult" where
  "user_loader args =
     Inr (Value (JArray
       [case args_params args ''id'' of None \<Rightarrow> JNull | Some v \<Rightarrow> JString v,
        case context_params (args_context args) ''id'' of None \<Rightarrow> JNull | Some v \<Rightarrow> JString v,
        case args_request args of
          Request_of_url u opts \<Rightarrow> JString u
        | Request_of_request r opts \<Rightarrow> JNull]))"

definition login_action :: "(unit, unit) HandlerArgs \<Rightarrow> unit + HandlerResult" where
  "login_action args =
     Inr (Value (JObject [(''data'', JObject [(''ok'', JBool True)]),
                          (''init'', JObject [(''status'', JNumber 201)])]))"

definition example_template :: "(unit, unit, unit) Template" where
  "example_template =
     \<lparr>ROUTES_CONFIG =
        [RouteConfigEntry (Some ''api/users/:id'') ''routes/user.ts'' None,
         RouteConfigEntry (Some ''api/login'') ''routes/login.ts'' None],
      BASE_URL = ''https://example.com'',
      ENV_IMPORT = (),
      import_module = (\<lambda>p.
        if p = ''~/routes/user.ts'' then Inr [(''loader'', Function user_loader)]
        else if p = ''~/routes/login.ts''
          then Inr [(''action'', Function login_action), (''default'', OtherValue)]
        else Inl ''Error: no such module'')\<rparr>"

definition no_init :: "unit WorkerdRequestInit" where
  "no_init = \<lparr>init_method = None, init_params = None, init_other = ()\<rparr>"

section \<open>Properties of the string helpers\<close>

lemma split_on_not_Nil: "split_on c s \<noteq> []"
  by (induction s) auto

lemma hd_split_on: "hd (split_on c s) = takeWhile (\<lambda>x. x \<noteq> c) s"
  by (induction s) auto

lemma split_on_snoc: "split_on c (s @ [c]) = split_on c s @ [[]]"
  by (induction s) (auto simp: split_on_not_Nil)

lemma split_on_no_separator: "s \<in> set (split_on c p) \<Longrightarrow> c \<notin> set s"
proof (induction p arbitrary: s)
  case Nil
  then show ?case by simp
next
  case (Cons x xs)
  obtain h t where ht: "split_on c xs = h # t"
    using split_on_not_Nil[of c xs] by (cases "split_on c xs") auto
  with Cons show ?case by (auto split: if_splits)
qed

text \<open>The same function with the recursive call written once, for evaluation.\<close>

lemma split_on_Nil [code]: "split_on c [] = [[]]"
  by simp

lemma split_on_Cons [simp, code]:
  "split_on c (x # xs) =
     (if x = c then [] # split_on c xs
      else (case split_on c xs of [] \<Rightarrow> [[x]] | y # ys \<Rightarrow> (x # y) # ys))"
  using split_on_not_Nil[of c xs] by (cases "split_on c xs") auto

declare split_on.simps(2) [simp del]

lemma segments_snoc_slash: "segments (s @ ''/'') = segments s"
  by (simp add: segments_def split_on_snoc)

lemma segments_strip_trailing_slash: "segments (strip_trailing_slash s) = segments s"
proof (cases "s \<noteq> [] \<and> last s = CHR ''/''")
  case True
  then have "s = butlast s @ ''/''" by (metis append_butlast_last_id)
  then have "segments s = segments (butlast s)" by (metis segments_snoc_slash)
  with True show ?thesis by (simp add: strip_trailing_slash_def)
next
  case False
  then show ?thesis by (auto simp add: strip_trailing_slash_def)
qed

lemma segments_normalize_slash: "segments (normalize_slash s) = segments s"
  by (simp add: normalize_slash_def segments_strip_trailing_slash)

lemma join_with_Nil:
  "\<forall>s \<in> set xs. s \<noteq> [] \<Longrightarrow> join_with sep xs = [] \<longleftrightarrow> xs = []"
  by (induction sep xs rule: join_with.induct) auto

lemma last_join_with:
  "xs \<noteq> [] \<Longrightarrow> \<forall>s \<in> set xs. s \<noteq> [] \<Longrightarrow> last (join_with sep xs) = last (last xs)"
proof (induction sep xs rule: join_with.induct)
  case (1 sep)
  then show ?case by simp
next
  case (2 sep x)
  then show ?case by simp
next
  case (3 sep x y ys)
  have "join_with sep (y # ys) \<noteq> []"
    using join_with_Nil[of "y # ys" sep] "3.prems" by simp
  with 3 show ?case by simp
qed

subsection \<open>A joined path has at most one trailing slash\<close>

lemma normalizeString_plain:
  "\<forall>s \<in> set res. plain_segment s \<Longrightarrow> \<forall>s \<in> set ss. CHR ''/'' \<notin> set s
     \<Longrightarrow> \<forall>s \<in> set (normalizeString a res ss). plain_segment s"
proof (induction ss arbitrary: res)
  case Nil
  then show ?case by simp
next
  case (Cons s ss)
  have b: "\<forall>s \<in> set (butlast res). plain_segment s"
    using Cons.prems(1) by (meson in_set_butlastD)
  have d: "\<forall>s \<in> set (res @ [''..'']). plain_segment s"
    using Cons.prems(1) by (auto simp: plain_segment_def)
  have e: "s \<noteq> [] \<Longrightarrow> \<forall>x \<in> set (res @ [s]). plain_segment x"
    using Cons.prems by (auto simp: plain_segment_def)
  have t: "\<forall>s \<in> set ss. CHR ''/'' \<notin> set s" using Cons.prems(2) by simp
  show ?case
    using Cons.IH[OF Cons.prems(1) t] Cons.IH[OF b t] Cons.IH[OF d t] Cons.IH[OF e t]
    by simp
qed

lemma posix_normalize_stripped:
  "strip_trailing_slash (strip_trailing_slash (posix_normalize p)) = strip_trailing_slash (posix_normalize p)"
proof (cases "p = []")
  case True
  then show ?thesis by (simp add: posix_normalize_def strip_trailing_slash_def)
next
  case False
  define segs where "segs = normalizeString (hd p \<noteq> CHR ''/'') [] (split_on (CHR ''/'') p)"
  define res where "res = join_with ''/'' segs"
  have plain: "\<forall>s \<in> set segs. plain_segment s"
    unfolding segs_def by (rule normalizeString_plain) (auto dest: split_on_no_separator)
  show ?thesis
  proof (cases "res = []")
    case True
    with False show ?thesis
      by (simp add: posix_normalize_def Let_def strip_trailing_slash_def res_def segs_def)
  next
    case nonempty: False
    then have "segs \<noteq> []" by (auto simp: res_def)
    with plain have "last (last segs) \<noteq> CHR ''/''"
      by (metis last_in_set plain_segment_def)
    moreover have "last res = last (last segs)"
      unfolding res_def using \<open>segs \<noteq> []\<close> plain
      by (intro last_join_with) (auto simp: plain_segment_def)
    ultimately have l: "last res \<noteq> CHR ''/''" by simp
    have eq: "posix_normalize p
                = (if hd p = CHR ''/'' then ''/'' else []) @ res @ (if last p = CHR ''/'' then ''/'' else [])"
      using False nonempty by (simp add: posix_normalize_def Let_def res_def segs_def)
    show ?thesis
      unfolding eq using l nonempty
      by (auto simp: strip_trailing_slash_def butlast_append)
  qed
qed

lemma posix_join_stripped:
  "strip_trailing_slash (strip_trailing_slash (posix_join a b)) = strip_trailing_slash (posix_join a b)"
proof -
  have "strip_trailing_slash (strip_trailing_slash ''.'') = strip_trailing_slash ''.''"
    by (simp add: strip_trailing_slash_def)
  then show ?thesis by (simp add: posix_join_def posix_normalize_stripped)
qed

text \<open>So the second normalisation in \<open>findRouteFile\<close> changes nothing: the path a node
  is matched under is the path \<open>extractAllRoutePaths\<close> lists for it.\<close>

lemma normalize_slash_fullPath: "normalize_slash (fullPath_of parent p) = fullPath_of parent p"
  using posix_join_stripped[of parent "case p of None \<Rightarrow> [] | Some q \<Rightarrow> q"]
  by (auto simp: normalize_slash_def fullPath_of_def Let_def)

section \<open>Properties of the route resolver\<close>

lemma find_append:
  "find P (xs @ ys) = (case find P xs of None \<Rightarrow> find P ys | Some x \<Rightarrow> Some x)"
  by (induction xs) auto

lemma findRouteFile_preorder:
  "findRouteFile t rs p = find (node_matches t) (preorder rs p)"
  by (induction t rs p rule: findRouteFile.induct)
     (auto simp: node_matches_def Let_def find_append split: option.splits)

text \<open>A table used in the examples: \<open>users\<close> with the child \<open>:id\<close>, followed by its
  sibling \<open>users/new\<close>.\<close>

lemma users_table_resolves:
  "findRouteFile ''/users/new''
     [RouteConfigEntry (Some ''users'') ''users.tsx''
        (Some [RouteConfigEntry (Some '':id'') ''user.tsx'' None]),
      RouteConfigEntry (Some ''users/new'') ''new.tsx'' None] []
   = Some \<lparr>file' = ''user.tsx'', routePath = ''users/:id''\<rparr>"
  by code_simp

text \<open>C6: when the route path and the target path have different numbers of non-empty
  segments, \<open>matchesDynamicRoute\<close> is false whatever the segments are; a node with that
  path does not pass the test of \<open>findRouteFile\<close> (equality of the normalised paths or
  \<open>matchesDynamicRoute\<close> on them), and \<open>findRouteFile\<close> never returns that route path
  for the target, in any table.\<close>

theorem matchesDynamicRoute_segment_count:
  assumes "length (segments r) \<noteq> length (segments t)"
  shows "\<not> matchesDynamicRoute r t
       \<and> \<not> node_matches t \<lparr>file' = f, routePath = r\<rparr>
       \<and> (\<forall>routeConfig parentPath.
             findRouteFile t routeConfig parentPath \<noteq> Some \<lparr>file' = f, routePath = r\<rparr>)"
proof -
  have a: "\<not> matchesDynamicRoute r t"
    using assms by (simp add: matchesDynamicRoute_def)
  have b: "\<not> node_matches t \<lparr>file' = f, routePath = r\<rparr>"
    using assms segments_normalize_slash[of t]
    by (auto simp add: matchesDynamicRoute_def node_matches_def)
  have c: "findRouteFile t routeConfig parentPath \<noteq> Some \<lparr>file' = f, routePath = r\<rparr>"
    for routeConfig parentPath
    unfolding findRouteFile_preorder using b by (auto simp: find_Some_iff)
  from a b c show ?thesis by blast
qed

text \<open>Witness for C6: \<open>/users/:id\<close> has two segments, \<open>/users/7/posts\<close> three.\<close>

theorem matchesDynamicRoute_segment_count_witness:
  "length (segments ''/users/:id'') \<noteq> length (segments ''/users/7/posts'')
   \<and> \<not> matchesDynamicRoute ''/users/:id'' ''/users/7/posts''
   \<and> \<not> node_matches ''/users/7/posts'' \<lparr>file' = ''user.tsx'', routePath = ''/users/:id''\<rparr>
   \<and> findRouteFile ''/users/7/posts'' [RouteConfigEntry (Some ''/users/:id'') ''user.tsx'' None] []
       \<noteq> Some \<lparr>file' = ''user.tsx'', routePath = ''/users/:id''\<rparr>"
proof -
  have h: "length (segments ''/users/:id'') \<noteq> length (segments ''/users/7/posts'')"
    by (simp add: segments_def)
  show ?thesis
    using h matchesDynamicRoute_segment_count[OF h, of "''user.tsx''"] by blast
qed

text \<open>C1, as stated, fails: the level \<open>users\<close>, \<open>users/new\<close> has a node that matches
  \<open>/users/new\<close> (the second one), yet \<open>findRouteFile\<close> returns \<open>users/:id\<close>, a child of
  the first node, which does not match itself: the children of a node are searched before
  its next sibling is looked at.\<close>

theorem findRouteFile_siblings_first_counterexample:
  "find (node_matches ''/users/new'')
     (level_nodes
        [RouteConfigEntry (Some ''users'') ''users.tsx''
           (Some [RouteConfigEntry (Some '':id'') ''user.tsx'' None]),
         RouteConfigEntry (Some ''users/new'') ''new.tsx'' None] [])
     = Some \<lparr>file' = ''new.tsx'', routePath = ''users/new''\<rparr>
   \<and> findRouteFile ''/users/new''
        [RouteConfigEntry (Some ''users'') ''users.tsx''
           (Some [RouteConfigEntry (Some '':id'') ''user.tsx'' None]),
         RouteConfigEntry (Some ''users/new'') ''new.tsx'' None] []
     = Some \<lparr>file' = ''user.tsx'', routePath = ''users/:id''\<rparr>"
  by code_simp

text \<open>C1, amended: for every route table and target path, \<open>findRouteFile\<close> returns the
  first matching node of the depth-first pre-order traversal (a node, then its descendants,
  then its later siblings), and nothing when no node matches. A matching node is therefore
  returned unless an earlier sibling or a descendant of an earlier sibling matches.\<close>

theorem findRouteFile_first_in_preorder:
  "findRouteFile targetPath routeConfig parentPath
     = find (node_matches targetPath) (preorder routeConfig parentPath)"
  by (rule findRouteFile_preorder)

text \<open>Witness for C1: in the table above the first match in pre-order is the child.\<close>

theorem findRouteFile_first_in_preorder_witness:
  "find (node_matches ''/users/new'')
     (preorder
        [RouteConfigEntry (Some ''users'') ''users.tsx''
           (Some [RouteConfigEntry (Some '':id'') ''user.tsx'' None]),
         RouteConfigEntry (Some ''users/new'') ''new.tsx'' None] [])
   = Some \<lparr>file' = ''user.tsx'', routePath = ''users/:id''\<rparr>"
  unfolding findRouteFile_first_in_preorder [symmetric]
  by (rule users_table_resolves)

section \<open>Properties of parameter extraction\<close>

lemma fold_upt_Suc: "fold f [0..<Suc n] a = f n (fold f [0..<n] a)"
  by simp

lemma dom_extract_step:
  "dom (extract_step rs ps n m)
     = dom m \<union> (if startsWith_colon (rs ! n) \<and> slice1 (rs ! n) \<noteq> ''__proto__''
                 then {slice1 (rs ! n)} else {})"
  by (simp add: extract_step_def set_property_def Let_def)

lemma extract_dom:
  "dom (fold (extract_step rs ps) [0..<n] Map.empty)
     = {slice1 (rs ! i) | i. i < n \<and> startsWith_colon (rs ! i)} - {''__proto__''}"
proof (induction n)
  case 0
  then show ?case by simp
next
  case (Suc n)
  have "{slice1 (rs ! i) | i. i < Suc n \<and> startsWith_colon (rs ! i)}
        = {slice1 (rs ! i) | i. i < n \<and> startsWith_colon (rs ! i)}
          \<union> (if startsWith_colon (rs ! n) then {slice1 (rs ! n)} else {})"
    by (auto simp: less_Suc_eq)
  with Suc show ?case
    unfolding fold_upt_Suc dom_extract_step by auto
qed

text \<open>The entry of a name is written at the last position that carries the name.\<close>

lemma extract_value:
  assumes "i < n" "startsWith_colon (rs ! i)" "slice1 (rs ! i) \<noteq> ''__proto__''"
    and "\<forall>j. i < j \<and> j < n \<and> startsWith_colon (rs ! j) \<longrightarrow> slice1 (rs ! j) \<noteq> slice1 (rs ! i)"
  shows "fold (extract_step rs ps) [0..<n] Map.empty (slice1 (rs ! i))
           = Some (if i < length ps then ps ! i else [])"
  using assms
proof (induction n)
  case 0
  then show ?case by simp
next
  case (Suc n)
  show ?case
  proof (cases "i = n")
    case True
    with Suc.prems show ?thesis
      unfolding fold_upt_Suc by (simp add: extract_step_def set_property_def Let_def)
  next
    case False
    with Suc.prems have "i < n" by simp
    moreover have "\<forall>j. i < j \<and> j < n \<and> startsWith_colon (rs ! j) \<longrightarrow> slice1 (rs ! j) \<noteq> slice1 (rs ! i)"
      using Suc.prems(4) by auto
    ultimately have IH: "fold (extract_step rs ps) [0..<n] Map.empty (slice1 (rs ! i))
           = Some (if i < length ps then ps ! i else [])"
      using Suc.IH Suc.prems(2,3) by blast
    have "startsWith_colon (rs ! n) \<Longrightarrow> slice1 (rs ! n) \<noteq> slice1 (rs ! i)"
      using Suc.prems(4) \<open>i < n\<close> by auto
    with IH show ?thesis
      unfolding fold_upt_Suc by (auto simp add: extract_step_def set_property_def Let_def)
  qed
qed

lemma distinct_map_filter_nth:
  "distinct (map f (filter P xs)) \<Longrightarrow> i < j \<Longrightarrow> j < length xs \<Longrightarrow> P (xs ! i) \<Longrightarrow> P (xs ! j)
     \<Longrightarrow> f (xs ! i) \<noteq> f (xs ! j)"
proof (induction xs arbitrary: i j)
  case Nil
  then show ?case by simp
next
  case (Cons x xs)
  from Cons.prems obtain j' where j: "j = Suc j'" by (cases j) auto
  show ?case
  proof (cases i)
    case 0
    with Cons.prems j have "P x" "xs ! j' \<in> set (filter P xs)" by auto
    with Cons.prems(1) have "f x \<noteq> f (xs ! j')" by auto
    with 0 j show ?thesis by simp
  next
    case (Suc i')
    have "distinct (map f (filter P xs))" using Cons.prems(1) by (auto split: if_splits)
    with Cons.IH[of i' j'] Cons.prems Suc j show ?thesis by simp
  qed
qed

lemma dynamic_names_set:
  "{slice1 (rs ! i) | i. i < length rs \<and> startsWith_colon (rs ! i)}
     = set (map slice1 (filter startsWith_colon rs))"
  by (auto simp: in_set_conv_nth)

lemma segments_two_params:
  "segments ''/:a/:a'' = ['':a'', '':a'']" "segments ''/1/2'' = [''1'', ''2'']"
  by (simp_all add: segments_def)

lemma extractParams_two_params: "extractParams ''/:a/:a'' ''/1/2'' = [''a'' \<mapsto> ''2'']"
  by (simp add: extractParams_def segments_two_params extract_step_def set_property_def
      startsWith_colon_def slice1_def upt_rec)

text \<open>C2, as stated, fails: the route \<open>/:a/:a\<close> is matched by \<open>/1/2\<close> and has two
  dynamic segments, but the extracted parameters have one entry, \<open>a\<close>, and its value is
  the target segment of the second position, not of the first: the parameters are an
  object, and the later assignment to the same name overwrites the earlier one.\<close>

theorem extractParams_entry_count_counterexample:
  "findRouteFile ''/1/2'' [RouteConfigEntry (Some ''/:a/:a'') ''f.tsx'' None] []
     = Some \<lparr>file' = ''f.tsx'', routePath = ''/:a/:a''\<rparr>
   \<and> length (filter startsWith_colon (segments ''/:a/:a'')) = 2
   \<and> card (dom (extractParams ''/:a/:a'' ''/1/2'')) = 1
   \<and> extractParams ''/:a/:a'' ''/1/2'' ''a'' = Some ''2''
   \<and> segments ''/1/2'' ! 0 = ''1''"
proof -
  have "findRouteFile ''/1/2'' [RouteConfigEntry (Some ''/:a/:a'') ''f.tsx'' None] []
     = Some \<lparr>file' = ''f.tsx'', routePath = ''/:a/:a''\<rparr>"
    by code_simp
  then show ?thesis
    by (simp add: extractParams_two_params segments_two_params startsWith_colon_def)
qed

text \<open>C2, amended: for every route path whose dynamic segments have pairwise distinct
  names, none of them \<open>__proto__\<close>, and every target path, parameter extraction returns
  exactly one entry per dynamic segment: the keys are the segment names with the marker
  stripped, and the value of each is verbatim the target segment at the same position, or
  the empty string when the target has no segment there. (In general an entry holds the
  segment at the last position that carries its name, and the name \<open>__proto__\<close> gets no
  entry.)\<close>

theorem extractParams_distinct_names:
  fixes rp ap :: string
  assumes "distinct (param_names rp)" and "''__proto__'' \<notin> set (param_names rp)"
  shows "dom (extractParams rp ap) = set (param_names rp)
       \<and> card (dom (extractParams rp ap)) = length (filter startsWith_colon (segments rp))
       \<and> (\<forall>i < length (segments rp). startsWith_colon (segments rp ! i) \<longrightarrow>
            extractParams rp ap (slice1 (segments rp ! i))
              = Some (if i < length (segments ap) then segments ap ! i else []))"
proof -
  let ?rs = "segments rp" and ?ps = "segments ap"
  have d: "dom (extractParams rp ap) = set (param_names rp)"
    using assms(2)
    unfolding extractParams_def Let_def extract_dom dynamic_names_set param_names_def by simp
  have c: "card (set (param_names rp)) = length (filter startsWith_colon ?rs)"
    using distinct_card[OF assms(1)] by (simp add: param_names_def)
  have v: "extractParams rp ap (slice1 (?rs ! i)) = Some (if i < length ?ps then ?ps ! i else [])"
    if "i < length ?rs" "startsWith_colon (?rs ! i)" for i
  proof -
    have "slice1 (?rs ! i) \<in> set (param_names rp)"
      using that by (auto simp: param_names_def)
    with assms(2) have np: "slice1 (?rs ! i) \<noteq> ''__proto__''" by auto
    have "\<forall>j. i < j \<and> j < length ?rs \<and> startsWith_colon (?rs ! j)
            \<longrightarrow> slice1 (?rs ! j) \<noteq> slice1 (?rs ! i)"
      using distinct_map_filter_nth[of slice1 startsWith_colon ?rs i] assms(1) that(2)
      by (metis param_names_def)
    from extract_value[OF that(1) that(2) np this]
    show ?thesis by (simp add: extractParams_def Let_def)
  qed
  from d c v show ?thesis by simp
qed

lemma segments_user_post:
  "segments ''/users/:id/posts/:postId'' = [''users'', '':id'', ''posts'', '':postId'']"
  "segments ''/users/7'' = [''users'', ''7'']"
  by (simp_all add: segments_def)

text \<open>Witness for C2: \<open>/users/:id/posts/:postId\<close> against the shorter target \<open>/users/7\<close>
  gives \<open>id = 7\<close> and the empty string for \<open>postId\<close>.\<close>

theorem extractParams_distinct_names_witness:
  "distinct (param_names ''/users/:id/posts/:postId'')
   \<and> ''__proto__'' \<notin> set (param_names ''/users/:id/posts/:postId'')
   \<and> dom (extractParams ''/users/:id/posts/:postId'' ''/users/7'') = {''id'', ''postId''}
   \<and> card (dom (extractParams ''/users/:id/posts/:postId'' ''/users/7'')) = 2
   \<and> extractParams ''/users/:id/posts/:postId'' ''/users/7'' ''id'' = Some ''7''
   \<and> extractParams ''/users/:id/posts/:postId'' ''/users/7'' ''postId'' = Some []"
proof -
  have n: "param_names ''/users/:id/posts/:postId'' = [''id'', ''postId'']"
    by (simp add: param_names_def segments_user_post startsWith_colon_def slice1_def)
  have h1: "distinct (param_names ''/users/:id/posts/:postId'')"
    and h2: "''__proto__'' \<notin> set (param_names ''/users/:id/posts/:postId'')"
    by (simp_all add: n)
  note t = extractParams_distinct_names[OF h1 h2, of "''/users/7''"]
  have d: "dom (extractParams ''/users/:id/posts/:postId'' ''/users/7'') = {''id'', ''postId''}"
    using t[THEN conjunct1] by (simp add: n)
  have c: "card (dom (extractParams ''/users/:id/posts/:postId'' ''/users/7'')) = 2"
    using t[THEN conjunct2, THEN conjunct1]
    by (simp add: segments_user_post startsWith_colon_def)
  have v1: "extractParams ''/users/:id/posts/:postId'' ''/users/7'' ''id'' = Some ''7''"
    using t[THEN conjunct2, THEN conjunct2, rule_format, of 1]
    by (simp add: segments_user_post startsWith_colon_def slice1_def)
  have v3: "extractParams ''/users/:id/posts/:postId'' ''/users/7'' ''postId'' = Some []"
    using t[THEN conjunct2, THEN conjunct2, rule_format, of 3]
    by (simp add: segments_user_post startsWith_colon_def slice1_def)
  from h1 h2 d c v1 v3 show ?thesis by simp
qed


section \<open>Properties of the listing of routes\<close>

lemma mset_collectPaths:
  "mset (collectPaths rs p) = mset (map routePath (preorder rs p))"
  by (induction rs p rule: collectPaths.induct)
     (auto simp: Let_def normalize_slash_fullPath split: option.splits)

lemma sort_mset_cong: "mset xs = mset ys \<Longrightarrow> sort xs = sort (ys :: 'a :: linorder list)"
  by (metis properties_for_sort sorted_sort mset_sort)

lemma extractAllRoutePaths_preorder:
  "extractAllRoutePaths rs p = sort (map routePath (preorder rs p))"
  unfolding extractAllRoutePaths_def by (rule sort_mset_cong) (rule mset_collectPaths)

section \<open>Properties of the dispatcher\<close>

lemma workerdFetch_no_route:
  "findRouteFile (targetPath_of (url_of input)) (ROUTES_CONFIG t) [] = None \<Longrightarrow>
   workerdFetch t input init
     = Inl (Error (''Could not find route for path: '' @ targetPath_of (url_of input)
                   @ ''. Available routes: ''
                   @ join_with '', '' (extractAllRoutePaths (ROUTES_CONFIG t) [])))"
  by (simp add: workerdFetch_def Let_def)

lemma workerdFetch_loaded:
  "findRouteFile (targetPath_of (url_of input)) (ROUTES_CONFIG t) [] = Some routeInfo \<Longrightarrow>
   import_module t (posix_join ''~'' (file' routeInfo)) = Inr module \<Longrightarrow>
   workerdFetch t input init
     = invoke_handler t input init (method_of input init) (targetPath_of (url_of input))
         (case init_params init of None \<Rightarrow> Map.empty | Some ps \<Rightarrow> ps) routeInfo module
         (method_of input init = ''GET'' \<or> method_of input init = ''HEAD'')
         (if method_of input init = ''GET'' \<or> method_of input init = ''HEAD''
          then map_of module ''loader'' else map_of module ''action'')"
  by (simp add: workerdFetch_def Let_def)

lemma invoke_handler_calls:
  "handler = Some (Function h) \<Longrightarrow>
   invoke_handler t input init method targetPath additionalParams routeInfo module isGetMethod handler
     = (case h \<lparr>args_request = create_request (BASE_URL t) input method init,
                 args_params = extractParams (routePath routeInfo) targetPath ++ additionalParams,
                 args_context = createTestContext (ENV_IMPORT t)
                    (Some (extractParams (routePath routeInfo) targetPath ++ additionalParams))\<rparr> of
          Inl e \<Rightarrow> Inl (Thrown e)
        | Inr result \<Rightarrow> Inr (convertToResponse result))"
  by (simp add: invoke_handler_def handler_missing_def call_handler_def Let_def split: sum.splits)

lemma workerdFetch_calls_handler:
  assumes "findRouteFile (targetPath_of (url_of input)) (ROUTES_CONFIG t) [] = Some routeInfo"
    and "import_module t (posix_join ''~'' (file' routeInfo)) = Inr module"
    and "(if method_of input init = ''GET'' \<or> method_of input init = ''HEAD''
          then map_of module ''loader'' else map_of module ''action'') = Some (Function h)"
  shows "workerdFetch t input init
     = (case h \<lparr>args_request = create_request (BASE_URL t) input (method_of input init) init,
                 args_params = extractParams (routePath routeInfo) (targetPath_of (url_of input))
                                ++ (case init_params init of None \<Rightarrow> Map.empty | Some ps \<Rightarrow> ps),
                 args_context = createTestContext (ENV_IMPORT t)
                    (Some (extractParams (routePath routeInfo) (targetPath_of (url_of input))
                            ++ (case init_params init of None \<Rightarrow> Map.empty | Some ps \<Rightarrow> ps)))\<rparr> of
          Inl e \<Rightarrow> Inl (Thrown e)
        | Inr result \<Rightarrow> Inr (convertToResponse result))"
  unfolding workerdFetch_loaded[OF assms(1,2)] by (rule invoke_handler_calls) (rule assms(3))

subsection \<open>The example application, evaluated\<close>

lemma example_routes: "ROUTES_CONFIG example_template =
        [RouteConfigEntry (Some ''api/users/:id'') ''routes/user.ts'' None,
         RouteConfigEntry (Some ''api/login'') ''routes/login.ts'' None]"
  by (simp add: example_template_def)

lemma example_find_user:
  "findRouteFile (targetPath_of (url_of (StringInput ''/api/users/42?x=1''))) (ROUTES_CONFIG example_template) []
     = Some \<lparr>file' = ''routes/user.ts'', routePath = ''api/users/:id''\<rparr>"
  unfolding example_routes by code_simp

lemma example_find_login:
  "findRouteFile (targetPath_of (url_of (StringInput ''/api/login''))) (ROUTES_CONFIG example_template) []
     = Some \<lparr>file' = ''routes/login.ts'', routePath = ''api/login''\<rparr>"
  unfolding example_routes by code_simp

lemma example_import_user:
  "import_module example_template (posix_join ''~'' (file' \<lparr>file' = ''routes/user.ts'', routePath = ''api/users/:id''\<rparr>))
     = Inr [(''loader'', Function user_loader)]"
proof -
  have "posix_join ''~'' ''routes/user.ts'' = ''~/routes/user.ts''" by code_simp
  then show ?thesis by (simp add: example_template_def)
qed

lemma example_import_login:
  "import_module example_template (posix_join ''~'' (file' \<lparr>file' = ''routes/login.ts'', routePath = ''api/login''\<rparr>))
     = Inr [(''action'', Function login_action), (''default'', OtherValue)]"
proof -
  have "posix_join ''~'' ''routes/login.ts'' = ''~/routes/login.ts''" by code_simp
  then show ?thesis by (simp add: example_template_def)
qed

lemma example_methods:
  "method_of (StringInput u) no_init = ''GET''"
  "method_of (StringInput u) (no_init\<lparr>init_method := Some ''POST''\<rparr>) = ''POST''"
  by (simp_all add: method_of_def or_GET_def no_init_def)


text \<open>C7: when no node of the route table matches the target path (the part of the input
  before the query, or \<open>/\<close> when that is empty), \<open>workerdFetch\<close> fails with the
  route-not-found error, whose message embeds that path and the full paths of all nodes of
  the table, sorted ascending and joined with a comma.\<close>

theorem workerdFetch_route_not_found:
  assumes "\<forall>n \<in> set (preorder (ROUTES_CONFIG t) []). \<not> node_matches (targetPath_of (url_of input)) n"
  shows "workerdFetch t input init
     = Inl (Error (''Could not find route for path: '' @ targetPath_of (url_of input)
                   @ ''. Available routes: ''
                   @ join_with '', '' (sort (map routePath (preorder (ROUTES_CONFIG t) [])))))"
proof -
  have "findRouteFile (targetPath_of (url_of input)) (ROUTES_CONFIG t) [] = None"
    using assms by (simp add: findRouteFile_preorder find_None_iff)
  then show ?thesis
    by (simp add: workerdFetch_no_route extractAllRoutePaths_preorder)
qed

lemma example_preorder:
  "preorder (ROUTES_CONFIG example_template) []
     = [\<lparr>file' = ''routes/user.ts'', routePath = ''api/users/:id''\<rparr>,
        \<lparr>file' = ''routes/login.ts'', routePath = ''api/login''\<rparr>]"
  unfolding example_routes by code_simp

lemma example_unknown_no_match:
  "\<not> node_matches (targetPath_of (url_of (StringInput ''/unknown''))) \<lparr>file' = ''routes/user.ts'', routePath = ''api/users/:id''\<rparr>"
  "\<not> node_matches (targetPath_of (url_of (StringInput ''/unknown''))) \<lparr>file' = ''routes/login.ts'', routePath = ''api/login''\<rparr>"
  by code_simp+

lemma example_sorted_paths:
  "join_with '', '' (sort [''api/users/:id'', ''api/login'']) = ''api/login, api/users/:id''"
  by code_simp

lemma example_targetPath_unknown: "targetPath_of (url_of (StringInput ''/unknown'')) = ''/unknown''"
  by code_simp

text \<open>Witness for C7: \<open>/unknown\<close> in the example application.\<close>

theorem workerdFetch_route_not_found_witness:
  "preorder (ROUTES_CONFIG example_template) []
     = [\<lparr>file' = ''routes/user.ts'', routePath = ''api/users/:id''\<rparr>,
        \<lparr>file' = ''routes/login.ts'', routePath = ''api/login''\<rparr>]
   \<and> \<not> node_matches (targetPath_of (url_of (StringInput ''/unknown'')))
          \<lparr>file' = ''routes/user.ts'', routePath = ''api/users/:id''\<rparr>
   \<and> \<not> node_matches (targetPath_of (url_of (StringInput ''/unknown'')))
          \<lparr>file' = ''routes/login.ts'', routePath = ''api/login''\<rparr>
   \<and> workerdFetch example_template (StringInput ''/unknown'') no_init
      = Inl (Error ''Could not find route for path: /unknown. Available routes: api/login, api/users/:id'')"
proof -
  have h: "\<forall>n \<in> set (preorder (ROUTES_CONFIG example_template) []).
       \<not> node_matches (targetPath_of (url_of (StringInput ''/unknown''))) n"
    unfolding example_preorder using example_unknown_no_match by simp
  have "workerdFetch example_template (StringInput ''/unknown'') no_init
      = Inl (Error ''Could not find route for path: /unknown. Available routes: api/login, api/users/:id'')"
    unfolding workerdFetch_route_not_found[OF h] example_preorder example_targetPath_unknown
    using example_sorted_paths by simp
  with example_preorder example_unknown_no_match show ?thesis by blast
qed


text \<open>C5: once the route is resolved and its module loaded, the handler is chosen by the
  method alone: for the methods \<open>GET\<close> and \<open>HEAD\<close> the rest of the call runs with the
  module's \<open>loader\<close>, for every other method string with its \<open>action\<close>. (The method is
  the resolved one: a missing or empty \<open>init.method\<close> has become \<open>GET\<close> before.)\<close>

theorem workerdFetch_handler_selection:
  assumes "findRouteFile (targetPath_of (url_of input)) (ROUTES_CONFIG t) [] = Some routeInfo"
    and "import_module t (posix_join ''~'' (file' routeInfo)) = Inr module"
  shows "workerdFetch t input init
     = (if method_of input init = ''GET'' \<or> method_of input init = ''HEAD''
        then invoke_handler t input init (method_of input init) (targetPath_of (url_of input))
               (case init_params init of None \<Rightarrow> Map.empty | Some ps \<Rightarrow> ps) routeInfo module
               True (map_of module ''loader'')
        else invoke_handler t input init (method_of input init) (targetPath_of (url_of input))
               (case init_params init of None \<Rightarrow> Map.empty | Some ps \<Rightarrow> ps) routeInfo module
               False (map_of module ''action''))"
  unfolding workerdFetch_loaded[OF assms] by simp

text \<open>Witness for C5: \<open>POST /api/login\<close> in the example application runs the action.\<close>

theorem workerdFetch_handler_selection_witness:
  "findRouteFile (targetPath_of (url_of (StringInput ''/api/login''))) (ROUTES_CONFIG example_template) []
     = Some \<lparr>file' = ''routes/login.ts'', routePath = ''api/login''\<rparr>
   \<and> import_module example_template
        (posix_join ''~'' (file' \<lparr>file' = ''routes/login.ts'', routePath = ''api/login''\<rparr>))
     = Inr [(''action'', Function login_action), (''default'', OtherValue)]
   \<and> workerdFetch example_template (StringInput ''/api/login'') (no_init\<lparr>init_method := Some ''POST''\<rparr>)
     = invoke_handler example_template (StringInput ''/api/login'') (no_init\<lparr>init_method := Some ''POST''\<rparr>)
         ''POST'' ''/api/login'' Map.empty \<lparr>file' = ''routes/login.ts'', routePath = ''api/login''\<rparr>
         [(''action'', Function login_action), (''default'', OtherValue)]
         False (Some (Function login_action))"
proof -
  have tp: "targetPath_of (url_of (StringInput ''/api/login'')) = ''/api/login''" by code_simp
  have "workerdFetch example_template (StringInput ''/api/login'') (no_init\<lparr>init_method := Some ''POST''\<rparr>)
     = invoke_handler example_template (StringInput ''/api/login'') (no_init\<lparr>init_method := Some ''POST''\<rparr>)
         ''POST'' ''/api/login'' Map.empty \<lparr>file' = ''routes/login.ts'', routePath = ''api/login''\<rparr>
         [(''action'', Function login_action), (''default'', OtherValue)]
         False (Some (Function login_action))"
    unfolding workerdFetch_handler_selection[OF example_find_login example_import_login]
      example_methods tp
    by (simp add: no_init_def)
  with example_find_login example_import_login show ?thesis by blast
qed

text \<open>C4, as stated, fails: for \<open>GET /api/login\<close> in the example application, whose
  module has an action and a default export, the error lists \<open>action, default\<close>: all the
  exports of the module, not only its capability names.\<close>

theorem workerdFetch_handler_not_found_counterexample:
  "workerdFetch example_template (StringInput ''/api/login'') no_init
     = Inl (Error ''No loader found for route: /api/login (method: GET). Available exports: action, default'')
   \<and> capability_names [(''action'', Function login_action), (''default'', OtherValue)] = [''action'']"
proof -
  have tp: "targetPath_of (url_of (StringInput ''/api/login'')) = ''/api/login''" by code_simp
  have "workerdFetch example_template (StringInput ''/api/login'') no_init
     = Inl (Error ''No loader found for route: /api/login (method: GET). Available exports: action, default'')"
    unfolding workerdFetch_loaded[OF example_find_login example_import_login] example_methods tp
    by (simp add: invoke_handler_def handler_missing_def)
  then show ?thesis by (simp add: capability_names_def)
qed

text \<open>C4, amended: for every loaded handler module that lacks the capability selected by
  the method (the export is absent or falsy), \<open>workerdFetch\<close> fails with the
  handler-not-found error, whose message embeds the name of the missing capability, the
  requested path, the method, and the names of all exports of the module
  (\<open>Object.keys\<close>), whether they are capabilities or not.\<close>

theorem workerdFetch_handler_not_found:
  assumes "findRouteFile (targetPath_of (url_of input)) (ROUTES_CONFIG t) [] = Some routeInfo"
    and "import_module t (posix_join ''~'' (file' routeInfo)) = Inr module"
    and "handler_missing (if method_of input init = ''GET'' \<or> method_of input init = ''HEAD''
                          then map_of module ''loader'' else map_of module ''action'')"
  shows "workerdFetch t input init
     = Inl (Error (''No ''
                   @ (if method_of input init = ''GET'' \<or> method_of input init = ''HEAD''
                      then ''loader'' else ''action'')
                   @ '' found for route: '' @ targetPath_of (url_of input)
                   @ '' (method: '' @ method_of input init
                   @ ''). Available exports: '' @ join_with '', '' (map fst module)))"
  unfolding workerdFetch_loaded[OF assms(1,2)] using assms(3)
  by (simp add: invoke_handler_def Let_def)

text \<open>Witness for C4: \<open>GET /api/login\<close> in the example application.\<close>

theorem workerdFetch_handler_not_found_witness:
  "handler_missing (if method_of (StringInput ''/api/login'') no_init = ''GET''
                       \<or> method_of (StringInput ''/api/login'') no_init = ''HEAD''
                    then map_of [(''action'', Function login_action), (''default'', OtherValue)] ''loader''
                    else map_of [(''action'', Function login_action), (''default'', OtherValue)] ''action'')
   \<and> workerdFetch example_template (StringInput ''/api/login'') no_init
     = Inl (Error (''No loader found for route: /api/login (method: GET). Available exports: ''
                   @ join_with '', '' [''action'', ''default'']))"
proof -
  have tp: "targetPath_of (url_of (StringInput ''/api/login'')) = ''/api/login''" by code_simp
  have h: "handler_missing (if method_of (StringInput ''/api/login'') no_init = ''GET''
                       \<or> method_of (StringInput ''/api/login'') no_init = ''HEAD''
                    then map_of [(''action'', Function login_action), (''default'', OtherValue)] ''loader''
                    else map_of [(''action'', Function login_action), (''default'', OtherValue)] ''action'')"
    unfolding example_methods by (simp add: handler_missing_def)
  have "workerdFetch example_template (StringInput ''/api/login'') no_init
     = Inl (Error (''No loader found for route: /api/login (method: GET). Available exports: ''
                   @ join_with '', '' [''action'', ''default'']))"
    unfolding workerdFetch_handler_not_found[OF example_find_login example_import_login h]
      example_methods tp
    by simp
  with h show ?thesis by blast
qed


text \<open>C8: in every call that reaches a handler, the parameters the handler is given hold,
  for every key of \<open>init.params\<close>, the caller's value, also when the path has a parameter
  of the same name; every other key has the value extracted from the path, and a key of
  neither source is absent.\<close>

theorem workerdFetch_explicit_params_win:
  assumes "findRouteFile (targetPath_of (url_of input)) (ROUTES_CONFIG t) [] = Some routeInfo"
    and "import_module t (posix_join ''~'' (file' routeInfo)) = Inr module"
    and "(if method_of input init = ''GET'' \<or> method_of input init = ''HEAD''
          then map_of module ''loader'' else map_of module ''action'') = Some (Function h)"
  shows "\<exists>args.
           workerdFetch t input init
             = (case h args of Inl e \<Rightarrow> Inl (Thrown e) | Inr result \<Rightarrow> Inr (convertToResponse result))
         \<and> (\<forall>k. args_params args k
                 = (case (case init_params init of None \<Rightarrow> Map.empty | Some ps \<Rightarrow> ps) k of
                      Some v \<Rightarrow> Some v
                    | None \<Rightarrow> extractParams (routePath routeInfo) (targetPath_of (url_of input)) k))"
  unfolding workerdFetch_calls_handler[OF assms]
  by (intro exI conjI, rule refl) (simp add: map_add_def)

lemma example_import_user_handler:
  "(if method_of (StringInput ''/api/users/42?x=1'') (no_init\<lparr>init_params := Some [''id'' \<mapsto> ''7'']\<rparr>) = ''GET''
       \<or> method_of (StringInput ''/api/users/42?x=1'') (no_init\<lparr>init_params := Some [''id'' \<mapsto> ''7'']\<rparr>) = ''HEAD''
    then map_of [(''loader'', Function user_loader)] ''loader''
    else map_of [(''loader'', Function user_loader)] ''action'') = Some (Function user_loader)"
  by (simp add: method_of_def or_GET_def no_init_def)

lemma example_import_user_handler_no_init:
  "(if method_of (StringInput ''/api/users/42?x=1'') no_init = ''GET''
       \<or> method_of (StringInput ''/api/users/42?x=1'') no_init = ''HEAD''
    then map_of [(''loader'', Function user_loader)] ''loader''
    else map_of [(''loader'', Function user_loader)] ''action'') = Some (Function user_loader)"
  by (simp add: method_of_def or_GET_def no_init_def)

text \<open>Witness for C8: \<open>/api/users/42\<close> called with the explicit parameter \<open>id = 7\<close>.\<close>

theorem workerdFetch_explicit_params_win_witness:
  "\<exists>args.
      workerdFetch example_template (StringInput ''/api/users/42?x=1'')
          (no_init\<lparr>init_params := Some [''id'' \<mapsto> ''7'']\<rparr>)
        = (case user_loader args of Inl e \<Rightarrow> Inl (Thrown e)
           | Inr result \<Rightarrow> Inr (convertToResponse result))
    \<and> args_params args ''id'' = Some ''7''"
proof -
  from workerdFetch_explicit_params_win
         [OF example_find_user example_import_user example_import_user_handler]
  obtain args where
    a: "workerdFetch example_template (StringInput ''/api/users/42?x=1'')
          (no_init\<lparr>init_params := Some [''id'' \<mapsto> ''7'']\<rparr>)
        = (case user_loader args of Inl e \<Rightarrow> Inl (Thrown e)
           | Inr result \<Rightarrow> Inr (convertToResponse result))"
    and b: "\<forall>k. args_params args k
                 = (case (case init_params (no_init\<lparr>init_params := Some [''id'' \<mapsto> ''7'']\<rparr>) of
                            None \<Rightarrow> Map.empty | Some ps \<Rightarrow> ps) k of
                      Some v \<Rightarrow> Some v
                    | None \<Rightarrow> extractParams (routePath \<lparr>file' = ''routes/user.ts'', routePath = ''api/users/:id''\<rparr>)
                               (targetPath_of (url_of (StringInput ''/api/users/42?x=1''))) k)"
    by blast
  from b have "args_params args ''id'' = Some ''7''" by (simp add: no_init_def)
  with a show ?thesis by blast
qed

text \<open>C9: in every call that reaches a handler, the \<open>params\<close> argument of the handler and
  the \<open>params\<close> field of its context are the same mapping, the merged one.\<close>

theorem workerdFetch_context_params:
  assumes "findRouteFile (targetPath_of (url_of input)) (ROUTES_CONFIG t) [] = Some routeInfo"
    and "import_module t (posix_join ''~'' (file' routeInfo)) = Inr module"
    and "(if method_of input init = ''GET'' \<or> method_of input init = ''HEAD''
          then map_of module ''loader'' else map_of module ''action'') = Some (Function h)"
  shows "\<exists>args.
           workerdFetch t input init
             = (case h args of Inl e \<Rightarrow> Inl (Thrown e) | Inr result \<Rightarrow> Inr (convertToResponse result))
         \<and> context_params (args_context args) = args_params args
         \<and> args_params args
             = extractParams (routePath routeInfo) (targetPath_of (url_of input))
                 ++ (case init_params init of None \<Rightarrow> Map.empty | Some ps \<Rightarrow> ps)"
  unfolding workerdFetch_calls_handler[OF assms]
  by (intro exI conjI, rule refl) (simp_all add: createTestContext_def)

text \<open>Witness for C9: \<open>/api/users/42\<close> in the example application.\<close>

theorem workerdFetch_context_params_witness:
  "\<exists>args.
      workerdFetch example_template (StringInput ''/api/users/42?x=1'') no_init
        = (case user_loader args of Inl e \<Rightarrow> Inl (Thrown e)
           | Inr result \<Rightarrow> Inr (convertToResponse result))
    \<and> context_params (args_context args) = args_params args"
  using workerdFetch_context_params
          [OF example_find_user example_import_user example_import_user_handler_no_init]
  by blast


subsection \<open>The empty path and the root resolve alike\<close>

lemma segments_empty_root: "segments [] = []" "segments ''/'' = []"
  by (simp_all add: segments_def)

lemma node_matches_empty_root: "node_matches [] n = node_matches ''/'' n"
proof -
  have m: "matchesDynamicRoute r [] = matchesDynamicRoute r ''/''" for r
    by (simp add: matchesDynamicRoute_def segments_empty_root)
  have e: "matchesDynamicRoute [] ''/''" "matchesDynamicRoute ''/'' []"
    by (simp_all add: matchesDynamicRoute_def segments_empty_root)
  have n: "normalize_slash [] = []" "normalize_slash ''/'' = ''/''"
    by (simp_all add: normalize_slash_def strip_trailing_slash_def)
  show ?thesis
    unfolding node_matches_def n using m e by metis
qed

lemma findRouteFile_empty_root: "findRouteFile [] rs p = findRouteFile ''/'' rs p"
  unfolding findRouteFile_preorder
  by (rule find_cong) (simp_all add: node_matches_empty_root)

lemma extractParams_empty_root: "extractParams r [] = extractParams r ''/''"
  by (simp add: extractParams_def segments_empty_root)

lemma targetPath_of_takeWhile:
  "targetPath_of url
     = (if takeWhile (\<lambda>c. c \<noteq> CHR ''?'') url = [] then ''/'' else takeWhile (\<lambda>c. c \<noteq> CHR ''?'') url)"
  by (simp add: targetPath_of_def hd_split_on Let_def)

lemma findRouteFile_targetPath_of:
  "findRouteFile (targetPath_of url) rs p = findRouteFile (takeWhile (\<lambda>c. c \<noteq> CHR ''?'') url) rs p"
  by (simp add: targetPath_of_takeWhile findRouteFile_empty_root)

lemma extractParams_targetPath_of:
  "extractParams r (targetPath_of url) = extractParams r (takeWhile (\<lambda>c. c \<noteq> CHR ''?'') url)"
  by (simp add: targetPath_of_takeWhile extractParams_empty_root)

text \<open>C10: for a plain-string input, the route is resolved and the parameters are extracted
  from the part of the string before the first \<open>?\<close> only, while the request given to the
  handler is built from the base URL followed by the whole input string, query included.\<close>

theorem workerdFetch_query_stripped_for_resolution_only:
  assumes "findRouteFile (takeWhile (\<lambda>c. c \<noteq> CHR ''?'') url) (ROUTES_CONFIG t) [] = Some routeInfo"
    and "import_module t (posix_join ''~'' (file' routeInfo)) = Inr module"
    and "(if method_of (StringInput url) init = ''GET'' \<or> method_of (StringInput url) init = ''HEAD''
          then map_of module ''loader'' else map_of module ''action'') = Some (Function h)"
  shows "\<exists>args.
           workerdFetch t (StringInput url) init
             = (case h args of Inl e \<Rightarrow> Inl (Thrown e) | Inr result \<Rightarrow> Inr (convertToResponse result))
         \<and> args_request args
             = Request_of_url (BASE_URL t @ url) (request_options (method_of (StringInput url) init) init)
         \<and> args_params args
             = extractParams (routePath routeInfo) (takeWhile (\<lambda>c. c \<noteq> CHR ''?'') url)
                 ++ (case init_params init of None \<Rightarrow> Map.empty | Some ps \<Rightarrow> ps)"
proof -
  have f: "findRouteFile (targetPath_of (url_of (StringInput url))) (ROUTES_CONFIG t) [] = Some routeInfo"
    using assms(1) by (simp add: url_of_def findRouteFile_targetPath_of)
  show ?thesis
    unfolding workerdFetch_calls_handler[OF f assms(2,3)]
    by (intro exI conjI, rule refl)
       (simp_all add: create_request_def url_of_def extractParams_targetPath_of)
qed

lemma example_find_user_stripped:
  "findRouteFile (takeWhile (\<lambda>c. c \<noteq> CHR ''?'') ''/api/users/42?x=1'') (ROUTES_CONFIG example_template) []
     = Some \<lparr>file' = ''routes/user.ts'', routePath = ''api/users/:id''\<rparr>"
  unfolding example_routes by code_simp

lemma example_extract_user:
  "extractParams ''api/users/:id'' ''/api/users/42'' = [''id'' \<mapsto> ''42'']"
proof -
  have "segments ''api/users/:id'' = [''api'', ''users'', '':id'']"
    "segments ''/api/users/42'' = [''api'', ''users'', ''42'']"
    by (simp_all add: segments_def)
  then show ?thesis
    by (simp add: extractParams_def extract_step_def set_property_def
        startsWith_colon_def slice1_def upt_rec)
qed

text \<open>Witness for C10: \<open>/api/users/42?x=1\<close> in the example application.\<close>

theorem workerdFetch_query_stripped_for_resolution_only_witness:
  "\<exists>args.
      workerdFetch example_template (StringInput ''/api/users/42?x=1'') no_init
        = (case user_loader args of Inl e \<Rightarrow> Inl (Thrown e)
           | Inr result \<Rightarrow> Inr (convertToResponse result))
    \<and> args_request args
        = Request_of_url ''https://example.com/api/users/42?x=1''
            \<lparr>options_method = ''GET'', options_other = ()\<rparr>
    \<and> args_params args = [''id'' \<mapsto> ''42'']"
proof -
  from workerdFetch_query_stripped_for_resolution_only
         [OF example_find_user_stripped example_import_user example_import_user_handler_no_init]
  obtain args where
    a: "workerdFetch example_template (StringInput ''/api/users/42?x=1'') no_init
        = (case user_loader args of Inl e \<Rightarrow> Inl (Thrown e)
           | Inr result \<Rightarrow> Inr (convertToResponse result))"
    and b: "args_request args
             = Request_of_url (BASE_URL example_template @ ''/api/users/42?x=1'')
                 (request_options (method_of (StringInput ''/api/users/42?x=1'') no_init) no_init)"
    and c: "args_params args
             = extractParams (routePath \<lparr>file' = ''routes/user.ts'', routePath = ''api/users/:id''\<rparr>)
                 (takeWhile (\<lambda>c. c \<noteq> CHR ''?'') ''/api/users/42?x=1'')
                 ++ (case init_params no_init of None \<Rightarrow> Map.empty | Some ps \<Rightarrow> ps)"
    by blast
  from b have b': "args_request args
        = Request_of_url ''https://example.com/api/users/42?x=1''
            \<lparr>options_method = ''GET'', options_other = ()\<rparr>"
    by (simp add: example_template_def method_of_def or_GET_def request_options_def no_init_def)
  from c have c': "args_params args = [''id'' \<mapsto> ''42'']"
    by (simp add: no_init_def example_extract_user)
  from a b' c' show ?thesis by blast
qed


section \<open>Properties of the normalisation of handler results\<close>






end
